theory Spec2Isabelle
  imports Main "HOL-Library.Sublist" "HOL-Library.AList"
begin

section \<open>Text\<close>

text \<open>
  The program works on Python \<open>str\<close> values. They are modelled as \<^typ>\<open>string\<close>, a
  character being a code point below 256. On the ASCII letters \<open>str.upper\<close> and \<open>str.lower\<close>
  map one to one and they leave every other ASCII character alone; the model leaves the
  characters of the upper half as they are, where Python maps them to code points that
  are not ASCII letters, but for the sharp s. \<open>str.isspace\<close>, which
  \<open>str.strip\<close> and the pattern class \<open>\s\<close> follow, holds of the twelve characters listed
  below. The pattern class \<open>\w\<close> holds of the underscore and of what \<open>str.isalnum\<close> accepts:
  the ASCII letters and digits, the letters of the upper half (the feminine and masculine
  ordinal, the micro sign, \<open>0xC0\<close> to \<open>0xFF\<close> without the two operators \<open>0xD7\<close> and \<open>0xF7\<close>)
  and its numerics (the superscripts one, two, three and the three fractions). Python's
  \<open>sub in s\<close> on strings is \<^const>\<open>sublist\<close>.
\<close>

definition upper_char :: "char \<Rightarrow> char" where
  "upper_char c =
     (case map_of (zip ''abcdefghijklmnopqrstuvwxyz'' ''ABCDEFGHIJKLMNOPQRSTUVWXYZ'') c of
        Some u \<Rightarrow> u
      | None \<Rightarrow> c)"

definition lower_char :: "char \<Rightarrow> char" where
  "lower_char c =
     (case map_of (zip ''ABCDEFGHIJKLMNOPQRSTUVWXYZ'' ''abcdefghijklmnopqrstuvwxyz'') c of
        Some l \<Rightarrow> l
      | None \<Rightarrow> c)"

definition upper :: "string \<Rightarrow> string" where
  "upper s = map upper_char s"

definition lower :: "string \<Rightarrow> string" where
  "lower s = map lower_char s"

definition is_space :: "char \<Rightarrow> bool" where
  "is_space c \<longleftrightarrow>
     c \<in> set [CHR 0x09, CHR 0x0A, CHR 0x0B, CHR 0x0C, CHR 0x0D,
               CHR 0x1C, CHR 0x1D, CHR 0x1E, CHR 0x1F, CHR 0x20,
               CHR 0x85, CHR 0xA0]"

definition is_word :: "char \<Rightarrow> bool" where
  "is_word c \<longleftrightarrow>
     c \<in> set (''abcdefghijklmnopqrstuvwxyzABCDEFGHIJKLMNOPQRSTUVWXYZ0123456789_'' @
         [CHR 0xAA, CHR 0xB2, CHR 0xB3, CHR 0xB5, CHR 0xB9, CHR 0xBA, CHR 0xBC, CHR 0xBD,
          CHR 0xBE, CHR 0xC0, CHR 0xC1, CHR 0xC2, CHR 0xC3, CHR 0xC4, CHR 0xC5, CHR 0xC6,
          CHR 0xC7, CHR 0xC8, CHR 0xC9, CHR 0xCA, CHR 0xCB, CHR 0xCC, CHR 0xCD, CHR 0xCE,
          CHR 0xCF, CHR 0xD0, CHR 0xD1, CHR 0xD2, CHR 0xD3, CHR 0xD4, CHR 0xD5, CHR 0xD6,
          CHR 0xD8, CHR 0xD9, CHR 0xDA, CHR 0xDB, CHR 0xDC, CHR 0xDD, CHR 0xDE, CHR 0xDF,
          CHR 0xE0, CHR 0xE1, CHR 0xE2, CHR 0xE3, CHR 0xE4, CHR 0xE5, CHR 0xE6, CHR 0xE7,
          CHR 0xE8, CHR 0xE9, CHR 0xEA, CHR 0xEB, CHR 0xEC, CHR 0xED, CHR 0xEE, CHR 0xEF,
          CHR 0xF0, CHR 0xF1, CHR 0xF2, CHR 0xF3, CHR 0xF4, CHR 0xF5, CHR 0xF6, CHR 0xF8,
          CHR 0xF9, CHR 0xFA, CHR 0xFB, CHR 0xFC, CHR 0xFD, CHR 0xFE, CHR 0xFF])"

text \<open>\<open>s.strip()\<close>: leading and trailing whitespace removed.\<close>

definition strip :: "string \<Rightarrow> string" where
  "strip s = rev (dropWhile is_space (rev (dropWhile is_space s)))"

text \<open>\<open>s.rstrip(chars)\<close>: every trailing character that is in \<open>chars\<close> removed.\<close>

definition rstrip :: "string \<Rightarrow> string \<Rightarrow> string" where
  "rstrip s chars = rev (dropWhile (\<lambda>c. c \<in> set chars) (rev s))"

text \<open>The decimal text an f-string puts in place of an integer.\<close>

fun digits :: "nat \<Rightarrow> string" where
  "digits n =
     (if n < 10 then [''0123456789'' ! n]
      else digits (n div 10) @ [''0123456789'' ! (n mod 10)])"

definition str_int :: "int \<Rightarrow> string" where
  "str_int i = (if i < 0 then CHR ''-'' # digits (nat (- i)) else digits (nat i))"


section \<open>Safety gate and limit enforcer\<close>

definition forbidden :: "string list" where
  "forbidden = [''INSERT'', ''UPDATE'', ''DELETE'', ''DROP'', ''ALTER'', ''CREATE'']"

definition is_safe_query :: "string \<Rightarrow> bool" where
  "is_safe_query query =
     (let upper_query = upper query
      in \<not> list_ex (\<lambda>keyword. sublist keyword upper_query) forbidden)"

definition enforce_limit :: "string \<Rightarrow> int \<Rightarrow> string" where
  "enforce_limit query limit =
     (if \<not> sublist ''LIMIT'' (upper query)
      then rstrip query '';'' @ '' LIMIT '' @ str_int limit @ '';''
      else query)"

text \<open>
  The limit enforcer as the specification words it, for comparison with the code: one
  trailing terminator is taken off if there is one, the bound clause is appended, the
  terminator is put back.
\<close>

definition strip_one_terminator :: "string \<Rightarrow> string" where
  "strip_one_terminator query =
     (if query \<noteq> [] \<and> last query = CHR '';'' then butlast query else query)"

definition enforce_limit_spec :: "string \<Rightarrow> string" where
  "enforce_limit_spec query =
     (if \<not> sublist ''LIMIT'' (upper query)
      then strip_one_terminator query @ '' LIMIT 10'' @ '';''
      else query)"


section \<open>Markdown fence extractor\<close>

text \<open>
  \<open>re.search\<close> with the pattern \<^verbatim>\<open>```(?:\w+)?\s*(.*?)```\<close> under \<open>IGNORECASE | DOTALL\<close>.
  The matcher is written out with the priorities of the backtracking engine: the start
  positions from left to right; at a start position the marker, then the tag group with
  its longest repetition first and the empty alternative last, then the whitespace with
  its longest repetition first, then the group with its shortest extension first. The
  pattern has no letters, so \<open>IGNORECASE\<close> changes nothing; with \<open>DOTALL\<close> the dot
  matches every character. The result is the text of group 1.
\<close>

definition fence :: string where
  "fence = ''```''"

fun lazy_group :: "string \<Rightarrow> string option" where
  "lazy_group [] = None"
| "lazy_group (c # cs) =
     (if prefix fence (c # cs) then Some [] else map_option ((#) c) (lazy_group cs))"

fun first_match :: "('a \<Rightarrow> 'b option) \<Rightarrow> 'a list \<Rightarrow> 'b option" where
  "first_match f [] = None"
| "first_match f (x # xs) = (case f x of Some y \<Rightarrow> Some y | None \<Rightarrow> first_match f xs)"

text \<open>
  What is left of \<open>s\<close> after a greedy repetition of a character class taken at least
  \<open>lo\<close> times: the longest repetition first.
\<close>

definition greedy :: "(char \<Rightarrow> bool) \<Rightarrow> nat \<Rightarrow> string \<Rightarrow> string list" where
  "greedy P lo s = map (\<lambda>n. drop n s) (rev [lo ..< Suc (length (takeWhile P s))])"

definition match_space :: "string \<Rightarrow> string option" where
  "match_space s = first_match lazy_group (greedy is_space 0 s)"

definition match_tag :: "string \<Rightarrow> string option" where
  "match_tag s = first_match match_space (greedy is_word 1 s @ [s])"

definition match_at :: "string \<Rightarrow> string option" where
  "match_at s = (if prefix fence s then match_tag (drop 3 s) else None)"

fun re_search :: "string \<Rightarrow> string option" where
  "re_search [] = match_at []"
| "re_search (c # cs) =
     (case match_at (c # cs) of Some g \<Rightarrow> Some g | None \<Rightarrow> re_search cs)"

definition strip_sql_markdown :: "string \<Rightarrow> string" where
  "strip_sql_markdown text = (case re_search text of Some g \<Rightarrow> strip g | None \<Rightarrow> strip text)"


section \<open>Frames, the store, the model service\<close>

text \<open>
  Python values that occur as column labels and cells of a data frame. Values other
  than \<open>None\<close>, integers and strings are kept by their printed form.
\<close>

datatype pyval = PNone | PInt int | PStr string | POther string

text \<open>A pandas data frame: the column labels and the rows, each row one cell per column.\<close>

record frame =
  columns :: "pyval list"
  rows :: "pyval list list"

text \<open>\<open>df.empty\<close>: some axis has length zero.\<close>

definition df_empty :: "frame \<Rightarrow> bool" where
  "df_empty df \<longleftrightarrow> columns df = [] \<or> rows df = []"

definition df_head :: "nat \<Rightarrow> frame \<Rightarrow> frame" where
  "df_head n df = df\<lparr>rows := take n (rows df)\<rparr>"

text \<open>
  A Python dictionary keeps insertion order; storing under a key that is present
  replaces the value in place. \<open>dict(pairs)\<close> stores the pairs from left to right.
\<close>

definition py_dict :: "('k \<times> 'v) list \<Rightarrow> ('k \<times> 'v) list" where
  "py_dict kvs = fold (\<lambda>(k, v). AList.update k v) kvs []"

text \<open>\<open>df.to_dict(orient="records")\<close>: one dictionary per row, from label to cell.\<close>

definition to_dict_records :: "frame \<Rightarrow> (pyval \<times> pyval) list list" where
  "to_dict_records df = map (\<lambda>r. py_dict (zip (columns df) r)) (rows df)"

datatype error =
    EOFError
  | KeyError pyval
  | StoreError string
  | ModelError string

fun index_of :: "'a \<Rightarrow> 'a list \<Rightarrow> nat option" where
  "index_of x [] = None"
| "index_of x (y # ys) = (if x = y then Some 0 else map_option Suc (index_of x ys))"

definition cell :: "pyval list \<Rightarrow> nat \<Rightarrow> pyval" where
  "cell r i = (if i < length r then r ! i else PNone)"

text \<open>\<open>df[label].tolist()\<close>: the cells of one column, \<open>KeyError\<close> for a label that is absent.\<close>

definition column_tolist :: "frame \<Rightarrow> pyval \<Rightarrow> error + pyval list" where
  "column_tolist df label =
     (case index_of label (columns df) of
        None \<Rightarrow> Inl (KeyError label)
      | Some i \<Rightarrow> Inr (map (\<lambda>r. cell r i) (rows df)))"

record metadata =
  m_columns :: "pyval list"
  m_dtypes :: "(pyval \<times> pyval) list"
  m_sample_rows :: "(pyval \<times> pyval) list list"

text \<open>
  The content of a chat message. The instructions are fixed text with the table name, the
  descriptor, the question and the row preview interpolated; a message is kept as the
  instruction it is together with the values interpolated into it.
\<close>

datatype content =
    Select_instruction string metadata
  | Summary_instruction
  | Question string
  | Question_with_result string "(pyval \<times> pyval) list list"

record request =
  model :: string
  messages :: "(string \<times> content) list"
  temperature :: string

datatype printout = Out_text string | Out_frame frame

datatype event =
    Read_input string
  | Printed printout
  | Model_called request
  | Tokens_counted
  | Connected
  | Executed string
  | Closed

text \<open>
  The collaborators outside the program. \<open>model_reply\<close> is
  \<open>client.chat.completions.create(...)\<close> read at \<open>choices[0].message.content\<close>: the text, or
  the exception of the call; it may depend on everything that happened before.
  \<open>store_connect\<close> is \<open>duckdb.connect(DB_PATH)\<close>, which may raise. \<open>store_query\<close> is
  \<open>con.execute(statement).fetchdf()\<close>: the frame of all rows, or the exception the store
  raises while it executes the statement or materializes the rows, and the store
  afterwards.
\<close>

record 'db world =
  model_reply :: "event list \<Rightarrow> request \<Rightarrow> error + string"
  store_connect :: "'db \<Rightarrow> error option"
  store_query :: "string \<Rightarrow> 'db \<Rightarrow> (error + frame) \<times> 'db"

record 'db state =
  db :: 'db
  open_conns :: nat
  trace :: "event list"

definition emit :: "event \<Rightarrow> 'db state \<Rightarrow> 'db state" where
  "emit e s = s\<lparr>trace := trace s @ [e]\<rparr>"

definition print_text :: "string \<Rightarrow> 'db state \<Rightarrow> 'db state" where
  "print_text t s = emit (Printed (Out_text t)) s"

definition connect :: "'db state \<Rightarrow> 'db state" where
  "connect s = emit Connected (s\<lparr>open_conns := Suc (open_conns s)\<rparr>)"

definition close :: "'db state \<Rightarrow> 'db state" where
  "close s = emit Closed (s\<lparr>open_conns := open_conns s - 1\<rparr>)"

definition executed :: "string \<Rightarrow> 'db \<Rightarrow> 'db state \<Rightarrow> 'db state" where
  "executed statement d s = emit (Executed statement) (s\<lparr>db := d\<rparr>)"

text \<open>
  Modelled from the spec: \<open>maintain_tokens_count\<close> of module \<open>dev\<close>, which is not among the
  sources. The usage metadata of a response is forwarded to a telemetry collaborator; the
  call returns and touches neither the store nor the output.
\<close>

definition maintain_tokens_count :: "'db state \<Rightarrow> 'db state" where
  "maintain_tokens_count s = emit Tokens_counted s"

definition deployment :: string where
  "deployment = ''gpt-4.1''"

definition TABLE_NAME :: string where
  "TABLE_NAME = ''uploaded_data''"


section \<open>Schema descriptor builder\<close>

definition extract_metadata_from_db ::
  "'db world \<Rightarrow> string \<Rightarrow> 'db state \<Rightarrow> (error + metadata) \<times> 'db state" where
  "extract_metadata_from_db w table_name s =
     (case store_connect w (db s) of
        Some e \<Rightarrow> (Inl e, s)
      | None \<Rightarrow>
          let s1 = connect s; q1 = ''DESCRIBE '' @ table_name in
          (case store_query w q1 (db s1) of
             (Inl e, d1) \<Rightarrow> (Inl e, executed q1 d1 s1)
           | (Inr schema, d1) \<Rightarrow>
               let s2 = executed q1 d1 s1;
                   q2 = ''SELECT * FROM '' @ table_name @ '' LIMIT 3'' in
               (case store_query w q2 (db s2) of
                  (Inl e, d2) \<Rightarrow> (Inl e, executed q2 d2 s2)
                | (Inr sample, d2) \<Rightarrow>
                    let s3 = close (executed q2 d2 s2) in
                    (case column_tolist schema (PStr ''column_name'') of
                       Inl e \<Rightarrow> (Inl e, s3)
                     | Inr names \<Rightarrow>
                         (case column_tolist schema (PStr ''column_type'') of
                            Inl e \<Rightarrow> (Inl e, s3)
                          | Inr types \<Rightarrow>
                              (Inr \<lparr>m_columns = names,
                                    m_dtypes = py_dict (zip names types),
                                    m_sample_rows = to_dict_records sample\<rparr>, s3))))))"

text \<open>
  The store is an engine outside the program. A table in it has named columns with their
  types, and rows; \<open>SELECT * ... LIMIT n\<close> on it gives the first \<open>n\<close> rows under the column
  names.
\<close>

record table =
  t_columns :: "(string \<times> string) list"
  t_rows :: "pyval list list"

definition select_all_answer :: "nat \<Rightarrow> table \<Rightarrow> frame" where
  "select_all_answer n t =
     \<lparr>columns = map (PStr \<circ> fst) (t_columns t), rows = take n (t_rows t)\<rparr>"


section \<open>Query synthesizer, execution engine, summarizer\<close>

definition select_request :: "string \<Rightarrow> metadata \<Rightarrow> string \<Rightarrow> request" where
  "select_request user_query md table_name =
     \<lparr>model = deployment,
      messages = [(''system'', Select_instruction table_name md), (''user'', Question user_query)],
      temperature = ''0''\<rparr>"

definition generate_select_sql ::
  "'db world \<Rightarrow> string \<Rightarrow> metadata \<Rightarrow> string \<Rightarrow> 'db state \<Rightarrow> (error + string) \<times> 'db state" where
  "generate_select_sql w user_query md table_name s =
     (let req = select_request user_query md table_name;
          s1 = emit (Model_called req) s in
      case model_reply w (trace s) req of
        Inl e \<Rightarrow> (Inl e, s1)
      | Inr reply \<Rightarrow>
          (Inr (strip_sql_markdown (strip reply)),
           print_text ''[ANALYSIS LLM CALL]'' (maintain_tokens_count s1)))"

definition execute_query ::
  "'db world \<Rightarrow> string \<Rightarrow> 'db state \<Rightarrow> (error + frame) \<times> 'db state" where
  "execute_query w query s =
     (case store_connect w (db s) of
        Some e \<Rightarrow> (Inl e, s)
      | None \<Rightarrow>
          let s1 = connect s in
          (case store_query w query (db s1) of
             (Inl e, d) \<Rightarrow> (Inl e, executed query d s1)
           | (Inr result, d) \<Rightarrow> (Inr result, close (executed query d s1))))"

definition summary_request :: "string \<Rightarrow> (pyval \<times> pyval) list list \<Rightarrow> request" where
  "summary_request user_query preview =
     \<lparr>model = deployment,
      messages = [(''system'', Summary_instruction),
                  (''user'', Question_with_result user_query preview)],
      temperature = ''0.2''\<rparr>"

definition generate_summary ::
  "'db world \<Rightarrow> string \<Rightarrow> frame \<Rightarrow> 'db state \<Rightarrow> (error + string) \<times> 'db state" where
  "generate_summary w user_query result_df s =
     (if df_empty result_df then (Inr ''No records matched the query.'', s)
      else
        let preview = to_dict_records (df_head 10 result_df);
            req = summary_request user_query preview;
            s1 = emit (Model_called req) s in
        case model_reply w (trace s) req of
          Inl e \<Rightarrow> (Inl e, s1)
        | Inr reply \<Rightarrow>
            (Inr (strip reply),
             maintain_tokens_count (print_text ''[SUMMARY LLM CALL]'' s1)))"


section \<open>Interactive loop\<close>

text \<open>
  The loop of the main program, over the lines that standard input still holds. Each
  iteration reads one line; \<open>input\<close> raises \<open>EOFError\<close> when there is none. The result is
  \<open>None\<close> when the loop ends by \<open>exit\<close>, and the exception that leaves the loop otherwise:
  the loop body has no handler, so an exception raised in a turn ends the program.
\<close>

fun interactive_loop ::
  "'db world \<Rightarrow> metadata \<Rightarrow> string list \<Rightarrow> 'db state \<Rightarrow> error option \<times> 'db state" where
  "interactive_loop w md [] s = (Some EOFError, s)"
| "interactive_loop w md (user_input # inputs) s =
     (let s0 = emit (Read_input user_input) s in
      if lower user_input = ''exit'' then (None, s0)
      else
        case generate_select_sql w user_input md TABLE_NAME s0 of
          (Inl e, s1) \<Rightarrow> (Some e, s1)
        | (Inr sql_query, s1) \<Rightarrow>
            if \<not> is_safe_query sql_query
            then interactive_loop w md inputs (print_text ''Unsafe query blocked.'' s1)
            else
              let sql_query' = enforce_limit sql_query 10;
                  s2 = print_text (''\<newline>Generated SQL:\<newline> '' @ sql_query') s1 in
              case execute_query w sql_query' s2 of
                (Inl e, s3) \<Rightarrow> (Some e, s3)
              | (Inr result_df, s3) \<Rightarrow>
                  let s4 = emit (Printed (Out_frame (df_head 10 result_df)))
                             (print_text ''\<newline>--- Result (First 10 Rows) ---\<newline>'' s3) in
                  case generate_summary w user_input result_df s4 of
                    (Inl e, s5) \<Rightarrow> (Some e, s5)
                  | (Inr summary, s5) \<Rightarrow>
                      interactive_loop w md inputs
                        (print_text summary (print_text ''\<newline>--- Summary ---\<newline>'' s5)))"


section \<open>Example data\<close>

text \<open>
  A small table, what the store answers to \<open>DESCRIBE\<close> for it (one row per column, the
  first a key that is not null), stores and model services that answer in a fixed way,
  and a starting state, for running the functions on concrete inputs. The stores count
  the statements they have been given. \<open>demo_world\<close> with \<open>fails\<close> set rejects every
  statement. \<open>scripted_world\<close> answers the request for a statement with its first argument
  and, once a connection has been opened, the request for a summary with its second;
  its third is what opening a connection does and its fourth what every statement does.
\<close>

definition demo_table :: table where
  "demo_table =
     \<lparr>t_columns = [(''id'', ''BIGINT''), (''status'', ''VARCHAR'')],
      t_rows = [[PInt 1, PStr ''Unknown''], [PInt 2, PStr ''Active''],
                [PInt 3, PStr ''Active''], [PInt 4, PStr ''Unknown'']]\<rparr>"

definition demo_schema :: frame where
  "demo_schema =
     \<lparr>columns = map PStr [''column_name'', ''column_type'', ''null'', ''key'', ''default'', ''extra''],
      rows = [[PStr ''id'', PStr ''BIGINT'', PStr ''NO'', PStr ''PRI'', PNone, PNone],
              [PStr ''status'', PStr ''VARCHAR'', PStr ''YES'', PNone, PStr ''Unknown'', PNone]]\<rparr>"

definition demo_world :: "string \<Rightarrow> bool \<Rightarrow> nat world" where
  "demo_world reply fails =
     \<lparr>model_reply = (\<lambda>_ _. Inr reply),
      store_connect = (\<lambda>_. None),
      store_query = (\<lambda>q d.
        if fails then (Inl (StoreError ''Binder Error''), Suc d)
        else if q = ''DESCRIBE uploaded_data'' then (Inr demo_schema, Suc d)
        else if q = ''SELECT * FROM uploaded_data LIMIT 3''
          then (Inr (select_all_answer 3 demo_table), Suc d)
        else (Inr (select_all_answer 10 demo_table), Suc d))\<rparr>"

definition scripted_world ::
  "error + string \<Rightarrow> error + string \<Rightarrow> error option \<Rightarrow> error + frame \<Rightarrow> nat world" where
  "scripted_world statement_reply summary_reply connecting result =
     \<lparr>model_reply = (\<lambda>tr _. if Connected \<in> set tr then summary_reply else statement_reply),
      store_connect = (\<lambda>_. connecting),
      store_query = (\<lambda>_ d. (result, Suc d))\<rparr>"

definition demo_state :: "nat state" where
  "demo_state = \<lparr>db = 0, open_conns = 0, trace = []\<rparr>"

definition demo_metadata :: metadata where
  "demo_metadata =
     \<lparr>m_columns = [PStr ''id'', PStr ''status''],
      m_dtypes = [(PStr ''id'', PStr ''BIGINT''), (PStr ''status'', PStr ''VARCHAR'')],
      m_sample_rows = [[(PStr ''id'', PInt 1), (PStr ''status'', PStr ''Unknown'')]]\<rparr>"

definition demo_frame :: frame where
  "demo_frame =
     \<lparr>columns = [PStr ''id''],
      rows = [[PInt 1], [PInt 2], [PInt 3], [PInt 4], [PInt 5], [PInt 6],
              [PInt 7], [PInt 8], [PInt 9], [PInt 10], [PInt 11]]\<rparr>"


section \<open>Properties of the safety gate\<close>

lemma upper_append: "upper (a @ b) = upper a @ upper b"
  by (simp add: upper_def)

lemma upper_char_cases:
  "upper_char c = c \<or> (c \<in> set ''abcdefghijklmnopqrstuvwxyz'' \<and> lower_char (upper_char c) = c)"
  by (simp add: upper_char_def lower_char_def)

lemma lower_capital:
  "d \<in> set ''ABCDEFGHIJKLMNOPQRSTUVWXYZ'' \<Longrightarrow> upper_char (lower_char d) = d \<and> upper_char d = d"
  by (auto simp add: upper_char_def lower_char_def)

lemma upper_char_eq_capital:
  assumes "d \<in> set ''ABCDEFGHIJKLMNOPQRSTUVWXYZ''"
  shows "upper_char c = d \<longleftrightarrow> c = d \<or> c = lower_char d"
  using upper_char_cases[of c] lower_capital[OF assms] by metis

lemma forbidden_capitals:
  "keyword \<in> set forbidden \<Longrightarrow> set keyword \<subseteq> set ''ABCDEFGHIJKLMNOPQRSTUVWXYZ''"
  by (auto simp: forbidden_def)

lemma list_all2_upper:
  "set k \<subseteq> set ''ABCDEFGHIJKLMNOPQRSTUVWXYZ'' \<Longrightarrow>
   list_all2 (\<lambda>c d. c = d \<or> c = lower_char d) mid k \<longleftrightarrow> upper mid = k"
proof (induction mid arbitrary: k)
  case Nil
  then show ?case by (auto simp: upper_def)
next
  case (Cons c mid)
  show ?case
  proof (cases k)
    case Nil
    then show ?thesis by (simp add: upper_def)
  next
    case (Cons d k')
    with Cons.prems have d: "d \<in> set ''ABCDEFGHIJKLMNOPQRSTUVWXYZ''"
      and k': "set k' \<subseteq> set ''ABCDEFGHIJKLMNOPQRSTUVWXYZ''"
      by (simp_all del: set_simps add: list.set(2))
    have "list_all2 (\<lambda>c d. c = d \<or> c = lower_char d) (c # mid) k \<longleftrightarrow>
          (c = d \<or> c = lower_char d) \<and> list_all2 (\<lambda>c d. c = d \<or> c = lower_char d) mid k'"
      by (simp add: Cons)
    also have "\<dots> \<longleftrightarrow> upper_char c = d \<and> upper mid = k'"
      by (simp only: Cons.IH[OF k'] upper_char_eq_capital[OF d])
    also have "\<dots> \<longleftrightarrow> upper (c # mid) = k"
      by (simp add: Cons upper_def)
    finally show ?thesis .
  qed
qed

lemma sublist_upper_iff:
  "sublist k (upper q) \<longleftrightarrow> (\<exists>pre mid post. q = pre @ mid @ post \<and> upper mid = k)"
proof
  assume "sublist k (upper q)"
  then obtain ps ss where eq: "map upper_char q = ps @ k @ ss"
    by (auto simp: sublist_def upper_def)
  define pre where "pre = take (length ps) q"
  define mid where "mid = take (length k) (drop (length ps) q)"
  define post where "post = drop (length k) (drop (length ps) q)"
  have "q = pre @ mid @ post"
    unfolding pre_def mid_def post_def by (simp only: append_take_drop_id)
  moreover have "map upper_char mid = take (length k) (drop (length ps) (map upper_char q))"
    by (simp add: mid_def take_map drop_map)
  then have "upper mid = k"
    by (simp add: eq upper_def)
  ultimately show "\<exists>pre mid post. q = pre @ mid @ post \<and> upper mid = k"
    by blast
next
  assume "\<exists>pre mid post. q = pre @ mid @ post \<and> upper mid = k"
  then show "sublist k (upper q)"
    by (auto simp: upper_append)
qed

lemma unsafe_iff:
  "\<not> is_safe_query q \<longleftrightarrow> (\<exists>keyword \<in> set forbidden. sublist keyword (upper q))"
  by (simp only: is_safe_query_def Let_def list_ex_iff not_not)

lemma keyword_occurs_iff:
  assumes "keyword \<in> set forbidden"
  shows "sublist keyword (upper q) \<longleftrightarrow>
         (\<exists>pre mid post. q = pre @ mid @ post \<and>
            list_all2 (\<lambda>c d. c = d \<or> c = lower_char d) mid keyword)"
  unfolding sublist_upper_iff list_all2_upper[OF forbidden_capitals[OF assms]] ..

text \<open>
  Claim C1. The safety gate rejects a text exactly when one of the six forbidden keywords
  occurs in it as a substring in some position, each character of the occurrence being
  the keyword's letter in upper or in lower case; every other text is accepted. The gate
  only returns a truth value, so the text itself is never changed.
\<close>

theorem is_safe_query_iff:
  "is_safe_query q \<longleftrightarrow>
     \<not> (\<exists>keyword \<in> set forbidden. \<exists>pre mid post.
          q = pre @ mid @ post \<and> list_all2 (\<lambda>c d. c = d \<or> c = lower_char d) mid keyword)"
proof -
  have "is_safe_query q \<longleftrightarrow> \<not> (\<exists>keyword \<in> set forbidden. sublist keyword (upper q))"
    using unsafe_iff[of q] by blast
  also have "\<dots> \<longleftrightarrow> \<not> (\<exists>keyword \<in> set forbidden. \<exists>pre mid post.
          q = pre @ mid @ post \<and> list_all2 (\<lambda>c d. c = d \<or> c = lower_char d) mid keyword)"
    by (simp only: keyword_occurs_iff cong: bex_cong)
  finally show ?thesis .
qed

theorem is_safe_query_iff_witness:
  "is_safe_query ''SELECT a FROM t'' \<and> \<not> is_safe_query ''x; drop table t'' \<and>
   (\<exists>keyword \<in> set forbidden. \<exists>pre mid post.
      ''x; drop table t'' = pre @ mid @ post \<and>
      list_all2 (\<lambda>c d. c = d \<or> c = lower_char d) mid keyword)"
proof -
  have a: "is_safe_query ''SELECT a FROM t''"
    by (simp add: is_safe_query_def forbidden_def upper_def upper_char_def sublist_code)
  have b: "\<not> is_safe_query ''x; drop table t''"
    by (simp add: is_safe_query_def forbidden_def upper_def upper_char_def sublist_code)
  from a b is_safe_query_iff [of "''x; drop table t''"] show ?thesis
    by blast
qed


section \<open>Properties of the limit enforcer\<close>

lemma rstrip_decompose:
  "q = rstrip q chars @ rev (takeWhile (\<lambda>c. c \<in> set chars) (rev q))"
  unfolding rstrip_def rev_append[symmetric] by simp

lemma rstrip_last:
  "rstrip q chars = [] \<or> last (rstrip q chars) \<notin> set chars"
proof (cases "dropWhile (\<lambda>c. c \<in> set chars) (rev q)")
  case Nil
  then show ?thesis by (simp add: rstrip_def)
next
  case (Cons y ys)
  then have "\<not> (\<lambda>c. c \<in> set chars) (hd (dropWhile (\<lambda>c. c \<in> set chars) (rev q)))"
    using hd_dropWhile[of "\<lambda>c. c \<in> set chars" "rev q"] by simp
  with Cons show ?thesis
    by (simp add: rstrip_def)
qed

lemma rstrip_terminators:
  "\<exists>n. q = rstrip q '';'' @ replicate n CHR '';''"
proof -
  let ?t = "rev (takeWhile (\<lambda>c. c \<in> set '';'') (rev q))"
  have "replicate (length ?t) CHR '';'' = ?t"
    by (rule replicate_length_same) (auto dest: set_takeWhileD)
  then have "q = rstrip q '';'' @ replicate (length ?t) CHR '';''"
    using rstrip_decompose[of q "'';''"] by (simp only:)
  then show ?thesis ..
qed

lemma sublist_upper_prefix:
  assumes "sublist k (upper a)"
  shows "sublist k (upper (a @ b))"
proof -
  from assms obtain ps ss where "upper a = ps @ k @ ss"
    by (auto simp: sublist_def)
  then have "upper (a @ b) = ps @ k @ (ss @ upper b)"
    by (simp add: upper_append)
  then show ?thesis
    unfolding sublist_def by blast
qed

lemma sublist_across_separator:
  assumes "sublist k (a @ c # b)" and "c \<notin> set k"
  shows "sublist k a \<or> sublist k b"
proof -
  from assms(1) consider "sublist k a" | "sublist k (c # b)"
    | xs1 xs2 where "k = xs1 @ xs2" "suffix xs1 a" "prefix xs2 (c # b)"
    by (auto simp: sublist_append)
  then show ?thesis
  proof cases
    case 1
    then show ?thesis ..
  next
    case 2
    then have "prefix k (c # b) \<or> sublist k b"
      by (simp add: sublist_Cons_right)
    with assms(2) show ?thesis
      by (cases k) auto
  next
    case 3
    with assms(2) have "xs2 = []"
      by (cases xs2) auto
    with 3 show ?thesis
      by auto
  qed
qed

lemma str_int_10: "str_int 10 = ''10''"
  by (simp add: str_int_def)

lemma enforce_limit_unbounded:
  "\<not> sublist ''LIMIT'' (upper q) \<Longrightarrow> enforce_limit q 10 = rstrip q '';'' @ '' LIMIT 10;''"
  by (simp add: enforce_limit_def str_int_10)

lemma upper_bound_clause: "upper '' LIMIT 10;'' = '' LIMIT 10;''"
  by (simp add: upper_def upper_char_def)

lemma upper_enforced:
  "upper (rstrip q '';'' @ '' LIMIT 10;'') = upper (rstrip q '';'') @ CHR '' '' # ''LIMIT 10;''"
  using upper_bound_clause by (simp add: upper_append)

lemma enforced_has_limit:
  "sublist ''LIMIT'' (upper (rstrip q '';'' @ '' LIMIT 10;''))"
proof -
  have "upper (rstrip q '';'' @ '' LIMIT 10;'') = (upper (rstrip q '';'') @ '' '') @ ''LIMIT'' @ '' 10;''"
    using upper_enforced[of q] by simp
  then show ?thesis
    unfolding sublist_def by blast
qed

lemma keyword_not_in_clause:
  "keyword \<in> set forbidden \<Longrightarrow> \<not> sublist keyword ''LIMIT 10;'' \<and> CHR '' '' \<notin> set keyword"
  by (auto simp: forbidden_def sublist_code)

text \<open>
  Claim C2, as the code has it. A text whose upper-case form contains \<open>LIMIT\<close> is returned
  as it is. Any other text loses all the terminators it ends with, however many, and gets
  the bound clause \<open>LIMIT 10\<close> and one terminator appended, also when it ended with none;
  what precedes the trailing terminators is kept.
\<close>

theorem enforce_limit_default:
  "(sublist ''LIMIT'' (upper q) \<longrightarrow> enforce_limit q 10 = q) \<and>
   (\<not> sublist ''LIMIT'' (upper q) \<longrightarrow>
      (\<exists>body n. q = body @ replicate n CHR '';'' \<and>
                (body = [] \<or> last body \<noteq> CHR '';'') \<and>
                enforce_limit q 10 = body @ '' LIMIT 10;''))"
proof (intro conjI impI)
  assume "sublist ''LIMIT'' (upper q)"
  then show "enforce_limit q 10 = q" by (simp add: enforce_limit_def)
next
  assume a: "\<not> sublist ''LIMIT'' (upper q)"
  obtain n where n: "q = rstrip q '';'' @ replicate n CHR '';''"
    using rstrip_terminators by blast
  have "rstrip q '';'' = [] \<or> last (rstrip q '';'') \<noteq> CHR '';''"
    using rstrip_last[of q "'';''"] by simp
  with n enforce_limit_unbounded[OF a]
  show "\<exists>body n. q = body @ replicate n CHR '';'' \<and>
                (body = [] \<or> last body \<noteq> CHR '';'') \<and>
                enforce_limit q 10 = body @ '' LIMIT 10;''"
    by blast
qed

theorem enforce_limit_default_witness:
  "\<not> sublist ''LIMIT'' (upper ''SELECT 1;;'') \<and>
   (\<exists>body n. ''SELECT 1;;'' = body @ replicate n CHR '';'' \<and>
              (body = [] \<or> last body \<noteq> CHR '';'') \<and>
              enforce_limit ''SELECT 1;;'' 10 = body @ '' LIMIT 10;'')"
proof -
  have h: "\<not> sublist ''LIMIT'' (upper ''SELECT 1;;'')"
    by (simp add: upper_def upper_char_def sublist_code)
  with enforce_limit_default [of "''SELECT 1;;''"] show ?thesis
    by blast
qed

text \<open>
  The claim as the specification states it, one trailing terminator taken off and put back
  after the bound clause with the rest of the text kept, fails on a text that ends with
  two terminators: the code drops both.
\<close>

theorem enforce_limit_spec_counterexample:
  "enforce_limit ''SELECT 1;;'' 10 = ''SELECT 1 LIMIT 10;'' \<and>
   enforce_limit_spec ''SELECT 1;;'' = ''SELECT 1; LIMIT 10;'' \<and>
   enforce_limit ''SELECT 1;;'' 10 \<noteq> enforce_limit_spec ''SELECT 1;;''"
  by (simp add: enforce_limit_def enforce_limit_spec_def strip_one_terminator_def upper_def
      upper_char_def sublist_code rstrip_def str_int_def)

text \<open>
  Claim C9. With the default bound the limit enforcer is idempotent: what a first
  application returns contains \<open>LIMIT\<close>, so a second application returns it unchanged.
\<close>

theorem enforce_limit_idempotent:
  "enforce_limit (enforce_limit q 10) 10 = enforce_limit q 10"
proof (cases "sublist ''LIMIT'' (upper q)")
  case True
  then show ?thesis by (simp add: enforce_limit_def)
next
  case False
  then have "enforce_limit q 10 = rstrip q '';'' @ '' LIMIT 10;''"
    by (rule enforce_limit_unbounded)
  moreover have "enforce_limit (rstrip q '';'' @ '' LIMIT 10;'') 10 = rstrip q '';'' @ '' LIMIT 10;''"
    unfolding enforce_limit_def using enforced_has_limit[of q] by (simp only: not_True_eq_False if_False)
  ultimately show ?thesis by simp
qed

text \<open>
  Claim C10. A text that the safety gate accepts is still accepted after the limit
  enforcer with the default bound has been applied to it.
\<close>

theorem enforce_limit_keeps_safe:
  assumes "is_safe_query q"
  shows "is_safe_query (enforce_limit q 10)"
proof (cases "sublist ''LIMIT'' (upper q)")
  case True
  with assms show ?thesis by (simp add: enforce_limit_def)
next
  case False
  have "\<not> sublist keyword (upper (rstrip q '';'' @ '' LIMIT 10;''))"
    if kw: "keyword \<in> set forbidden" for keyword
  proof
    assume "sublist keyword (upper (rstrip q '';'' @ '' LIMIT 10;''))"
    then have "sublist keyword (upper (rstrip q '';'') @ CHR '' '' # ''LIMIT 10;'')"
      by (simp only: upper_enforced)
    moreover have "CHR '' '' \<notin> set keyword"
      using keyword_not_in_clause[OF kw] by simp
    ultimately have "sublist keyword (upper (rstrip q '';'')) \<or> sublist keyword ''LIMIT 10;''"
      by (rule sublist_across_separator)
    with keyword_not_in_clause[OF kw] have "sublist keyword (upper (rstrip q '';''))"
      by simp
    then have "sublist keyword (upper (rstrip q '';'' @ rev (takeWhile (\<lambda>c. c \<in> set '';'') (rev q))))"
      by (rule sublist_upper_prefix)
    then have "sublist keyword (upper q)"
      by (simp only: rstrip_decompose[symmetric])
    with kw have "\<not> is_safe_query q"
      unfolding unsafe_iff by (rule bexI[rotated])
    with assms show False by simp
  qed
  then have "\<not> (\<exists>keyword \<in> set forbidden. sublist keyword (upper (rstrip q '';'' @ '' LIMIT 10;'')))"
    by (rule_tac notI) (erule bexE, simp)
  then have "is_safe_query (rstrip q '';'' @ '' LIMIT 10;'')"
    unfolding unsafe_iff[symmetric] by simp
  then show ?thesis
    by (simp only: enforce_limit_unbounded[OF False])
qed

theorem enforce_limit_keeps_safe_witness:
  "is_safe_query ''SELECT a FROM t;'' \<and> is_safe_query (enforce_limit ''SELECT a FROM t;'' 10) \<and>
   enforce_limit ''SELECT a FROM t;'' 10 = ''SELECT a FROM t LIMIT 10;''"
proof -
  have h: "is_safe_query ''SELECT a FROM t;''"
    by (simp add: is_safe_query_def forbidden_def upper_def upper_char_def sublist_code)
  have v: "enforce_limit ''SELECT a FROM t;'' 10 = ''SELECT a FROM t LIMIT 10;''"
    by (simp add: enforce_limit_def upper_def upper_char_def sublist_code rstrip_def str_int_def)
  from h v enforce_limit_keeps_safe [OF h] show ?thesis
    by simp
qed


section \<open>Properties of the fence extractor\<close>

lemma fence_backtick: "prefix fence (c # cs) \<Longrightarrow> c = CHR 0x60"
  by (simp add: fence_def)

lemma lazy_group_None_iff: "lazy_group s = None \<longleftrightarrow> \<not> sublist fence s"
proof (induction s)
  case Nil
  then show ?case by (simp add: fence_def)
next
  case (Cons c cs)
  have "fence \<noteq> []" by (simp add: fence_def)
  then obtain f fs where f: "fence = f # fs" by (cases fence) auto
  show ?case
    using Cons by (auto simp: f sublist_Cons_right)
qed

lemma lazy_group_Some:
  "lazy_group s = Some g \<Longrightarrow> \<exists>post. s = g @ fence @ post \<and> \<not> sublist fence (g @ ''``'')"
proof (induction s arbitrary: g)
  case Nil
  then show ?case by simp
next
  case (Cons c cs)
  show ?case
  proof (cases "prefix fence (c # cs)")
    case True
    with Cons.prems have "g = []" by simp
    moreover from True obtain post where "c # cs = fence @ post"
      by (auto simp: prefix_def)
    moreover have "\<not> sublist fence ''``''"
      by (simp add: fence_def sublist_code)
    ultimately show ?thesis by auto
  next
    case False
    with Cons.prems obtain g' where g': "lazy_group cs = Some g'" and g: "g = c # g'"
      by auto
    from Cons.IH[OF g'] obtain post where post: "cs = g' @ fence @ post"
      and nf: "\<not> sublist fence (g' @ ''``'')" by blast
    have "\<not> prefix fence (c # g' @ ''``'')"
    proof
      assume "prefix fence (c # g' @ ''``'')"
      moreover have "prefix (c # g' @ ''``'') (c # cs)"
        by (simp add: post fence_def)
      ultimately have "prefix fence (c # cs)"
        by (rule prefix_order.trans)
      with False show False ..
    qed
    with nf have "\<not> sublist fence (c # g' @ ''``'')"
      by (simp add: sublist_Cons_right)
    with post g show ?thesis by auto
  qed
qed

lemma lazy_group_dropWhile:
  assumes "\<And>c. P c \<Longrightarrow> c \<noteq> CHR 0x60"
  shows "lazy_group (dropWhile P s) = map_option (dropWhile P) (lazy_group s)"
proof (induction s)
  case Nil
  then show ?case by simp
next
  case (Cons c cs)
  show ?case
  proof (cases "prefix fence (c # cs)")
    case True
    then have "c = CHR 0x60" by (rule fence_backtick)
    with assms have "\<not> P c" by blast
    with True show ?thesis by simp
  next
    case False
    show ?thesis
    proof (cases "P c")
      case True
      with False Cons show ?thesis
        by (simp add: option.map_comp comp_def)
    next
      case nP: False
      with False show ?thesis
        by (simp add: option.map_comp comp_def)
    qed
  qed
qed


lemma first_match_None: "(\<And>x. x \<in> set xs \<Longrightarrow> f x = None) \<Longrightarrow> first_match f xs = None"
  by (induction xs) auto

lemma dropWhile_drop:
  assumes "n \<le> length (takeWhile P s)"
  shows "dropWhile P (drop n s) = dropWhile P s"
proof -
  have "drop n s = drop n (takeWhile P s @ dropWhile P s)"
    by simp
  also have "\<dots> = drop n (takeWhile P s) @ dropWhile P s"
    using assms by (simp del: takeWhile_dropWhile_id)
  finally have "dropWhile P (drop n s) = dropWhile P (drop n (takeWhile P s) @ dropWhile P s)"
    by (rule arg_cong)
  also have "\<dots> = dropWhile P (dropWhile P s)"
    by (rule dropWhile_append2) (auto dest: in_set_dropD set_takeWhileD)
  finally show ?thesis by simp
qed

lemma first_match_greedy:
  assumes P: "\<And>c. P c \<Longrightarrow> c \<noteq> CHR 0x60"
    and f: "\<And>x. f x = None \<longleftrightarrow> lazy_group x = None"
  shows "first_match f (greedy P 0 s) = f (dropWhile P s)"
proof -
  let ?m = "length (takeWhile P s)"
  have none: "lazy_group (drop n s) = None \<longleftrightarrow> lazy_group (dropWhile P s) = None" if "n \<le> ?m" for n
  proof -
    have "lazy_group (dropWhile P (drop n s)) = map_option (dropWhile P) (lazy_group (drop n s))"
      using P by (rule lazy_group_dropWhile)
    then show ?thesis
      by (simp add: dropWhile_drop[OF that])
  qed
  have g: "greedy P 0 s = dropWhile P s # map (\<lambda>n. drop n s) (rev [0 ..< ?m])"
    by (simp add: greedy_def dropWhile_eq_drop)
  show ?thesis
  proof (cases "f (dropWhile P s)")
    case (Some y)
    then show ?thesis by (simp add: g)
  next
    case None
    then have "lazy_group (dropWhile P s) = None"
      by (simp add: f)
    then have "f x = None" if "x \<in> set (map (\<lambda>n. drop n s) (rev [0 ..< ?m]))" for x
      using that none f by auto
    then have "first_match f (map (\<lambda>n. drop n s) (rev [0 ..< ?m])) = None"
      by (rule first_match_None)
    with None show ?thesis by (simp add: g)
  qed
qed

lemma greedy_optional: "greedy P 1 s @ [s] = greedy P 0 s"
proof -
  let ?m = "length (takeWhile P s)"
  have "[0 ..< Suc ?m] = 0 # [Suc 0 ..< Suc ?m]"
    by (rule upt_conv_Cons) simp
  then have "map (\<lambda>n. drop n s) (rev [0 ..< Suc ?m]) =
             map (\<lambda>n. drop n s) (rev [Suc 0 ..< Suc ?m]) @ [s]"
    by (simp only: rev.simps map_append list.map drop_0)
  then show ?thesis
    by (simp only: greedy_def One_nat_def)
qed

lemma space_not_backtick: "is_space c \<Longrightarrow> c \<noteq> CHR 0x60"
  by (auto simp: is_space_def)

lemma word_not_backtick: "is_word c \<Longrightarrow> c \<noteq> CHR 0x60"
  by (auto simp: is_word_def)

lemma match_space_eq: "match_space s = map_option (dropWhile is_space) (lazy_group s)"
proof -
  have "match_space s = lazy_group (dropWhile is_space s)"
    unfolding match_space_def by (rule first_match_greedy) (auto dest: space_not_backtick)
  also have "\<dots> = map_option (dropWhile is_space) (lazy_group s)"
    by (rule lazy_group_dropWhile) (rule space_not_backtick)
  finally show ?thesis .
qed

lemma match_tag_eq:
  "match_tag s = map_option (\<lambda>g. dropWhile is_space (dropWhile is_word g)) (lazy_group s)"
proof -
  have "match_tag s = match_space (dropWhile is_word s)"
    unfolding match_tag_def greedy_optional
    by (rule first_match_greedy) (auto dest: word_not_backtick simp: match_space_eq)
  also have "\<dots> = map_option (dropWhile is_space) (lazy_group (dropWhile is_word s))"
    by (rule match_space_eq)
  also have "lazy_group (dropWhile is_word s) = map_option (dropWhile is_word) (lazy_group s)"
    by (rule lazy_group_dropWhile) (rule word_not_backtick)
  finally show ?thesis
    by (simp add: option.map_comp comp_def)
qed

lemma match_at_eq:
  "match_at s =
     (if prefix fence s
      then map_option (\<lambda>g. dropWhile is_space (dropWhile is_word g)) (lazy_group (drop 3 s))
      else None)"
  by (simp add: match_at_def match_tag_eq)



lemma prefix_fence_long:
  assumes "prefix fence (c # g @ ''``'')"
  shows "prefix fence (c # g @ fence @ post)"
proof (cases g)
  case Nil
  with assms show ?thesis by (auto simp: fence_def)
next
  case (Cons a g')
  with assms show ?thesis by (cases g') (auto simp: fence_def)
qed







lemma re_search_Some:
  "re_search s = Some g \<Longrightarrow>
   \<exists>pre inner post. s = pre @ fence @ inner @ fence @ post \<and>
     \<not> sublist fence (pre @ ''``'') \<and> \<not> sublist fence (inner @ ''``'') \<and>
     g = dropWhile is_space (dropWhile is_word inner)"
proof (induction s)
  case Nil
  then show ?case by (simp add: match_at_def fence_def)
next
  case (Cons c cs)
  show ?case
  proof (cases "match_at (c # cs)")
    case (Some g0)
    with Cons.prems have g0: "g0 = g" by simp
    from Some have pf: "prefix fence (c # cs)"
      by (simp add: match_at_def split: if_splits)
    then obtain rest where rest: "c # cs = fence @ rest"
      by (auto simp: prefix_def)
    then have "drop 3 (c # cs) = rest"
      by (simp add: fence_def)
    with Some pf g0 obtain inner where inner: "lazy_group rest = Some inner"
      and g: "g = dropWhile is_space (dropWhile is_word inner)"
      by (auto simp: match_at_eq)
    from lazy_group_Some[OF inner] obtain post where "rest = inner @ fence @ post"
      and "\<not> sublist fence (inner @ ''``'')" by blast
    moreover have "\<not> sublist fence ([] @ ''``'')"
      by (simp add: fence_def sublist_code)
    ultimately have "c # cs = [] @ fence @ inner @ fence @ post \<and>
       \<not> sublist fence ([] @ ''``'') \<and> \<not> sublist fence (inner @ ''``'') \<and>
       g = dropWhile is_space (dropWhile is_word inner)"
      using rest g by simp
    then show ?thesis by blast
  next
    case None
    with Cons.prems have "re_search cs = Some g" by simp
    from Cons.IH[OF this] obtain pre inner post where cs: "cs = pre @ fence @ inner @ fence @ post"
      and ns: "\<not> sublist fence (pre @ ''``'')" and ni: "\<not> sublist fence (inner @ ''``'')"
      and g: "g = dropWhile is_space (dropWhile is_word inner)" by blast
    have "\<not> prefix fence (c # pre @ ''``'')"
    proof
      assume "prefix fence (c # pre @ ''``'')"
      then have pf: "prefix fence (c # cs)"
        unfolding cs by (rule prefix_fence_long)
      have "c # cs = (c # pre @ fence) @ inner @ fence @ post"
        by (simp add: cs)
      then have "drop 3 (c # cs) =
          drop 3 (c # pre @ fence) @ drop (3 - length (c # pre @ fence)) (inner @ fence @ post)"
        by (simp only: drop_append)
      moreover have "3 - length (c # pre @ fence) = 0"
        by (simp add: fence_def)
      ultimately have "drop 3 (c # cs) = drop 3 (c # pre @ fence) @ inner @ fence @ post"
        by (simp only: drop_0)
      moreover have "sublist fence ((drop 3 (c # pre @ fence) @ inner) @ fence @ post)"
        by (rule sublist_appendI)
      ultimately have "sublist fence (drop 3 (c # cs))"
        by (simp only: append_assoc)
      then have "lazy_group (drop 3 (c # cs)) \<noteq> None"
        by (simp add: lazy_group_None_iff)
      with pf have "match_at (c # cs) \<noteq> None"
        by (simp add: match_at_eq)
      with None show False by simp
    qed
    with ns have "\<not> sublist fence ((c # pre) @ ''``'')"
      by (simp add: sublist_Cons_right)
    with cs ni g have "c # cs = (c # pre) @ fence @ inner @ fence @ post \<and>
       \<not> sublist fence ((c # pre) @ ''``'') \<and> \<not> sublist fence (inner @ ''``'') \<and>
       g = dropWhile is_space (dropWhile is_word inner)"
      by simp
    then show ?thesis by blast
  qed
qed








section \<open>Properties of the execution engine, the summarizer and the descriptor builder\<close>

lemmas effect_defs = emit_def print_text_def connect_def close_def executed_def
  maintain_tokens_count_def

text \<open>
  Claim C4, as the code has it. Once the connection is open, a statement that the store
  runs without error leaves the number of open connections as it was: the connection is
  closed before the frame is returned. A statement on which the store raises, during
  execution or while the rows are materialized, leaves one more connection open: the
  exception passes the call of \<open>close\<close>, and the trace of the invocation ends with the
  statement.
\<close>

theorem execute_query_connection:
  assumes "store_connect w (db s) = None"
  shows "(\<forall>result d. store_query w query (db s) = (Inr result, d) \<longrightarrow>
            execute_query w query s =
              (Inr result, s\<lparr>db := d, trace := trace s @ [Connected, Executed query, Closed]\<rparr>)) \<and>
         (\<forall>e d. store_query w query (db s) = (Inl e, d) \<longrightarrow>
            execute_query w query s =
              (Inl e, s\<lparr>db := d, open_conns := Suc (open_conns s),
                        trace := trace s @ [Connected, Executed query]\<rparr>))"
  using assms by (simp add: execute_query_def effect_defs)

theorem execute_query_connection_witness:
  "store_connect (demo_world [] False) (db demo_state) = None \<and>
   execute_query (demo_world [] False) ''SELECT id FROM uploaded_data LIMIT 10;'' demo_state =
     (Inr (select_all_answer 10 demo_table),
      \<lparr>db = 1, open_conns = 0,
       trace = [Connected, Executed ''SELECT id FROM uploaded_data LIMIT 10;'', Closed]\<rparr>) \<and>
   execute_query (demo_world [] True) ''SELECT nothing LIMIT 10;'' demo_state =
     (Inl (StoreError ''Binder Error''),
      \<lparr>db = 1, open_conns = 1,
       trace = [Connected, Executed ''SELECT nothing LIMIT 10;'']\<rparr>)"
proof -
  have c1: "store_connect (demo_world [] False) (db demo_state) = None"
    and c2: "store_connect (demo_world [] True) (db demo_state) = None"
    by (simp_all add: demo_world_def)
  have q1: "store_query (demo_world [] False) ''SELECT id FROM uploaded_data LIMIT 10;'' (db demo_state) =
              (Inr (select_all_answer 10 demo_table), 1)"
    by (simp add: demo_world_def demo_state_def)
  have q2: "store_query (demo_world [] True) ''SELECT nothing LIMIT 10;'' (db demo_state) =
              (Inl (StoreError ''Binder Error''), 1)"
    by (simp add: demo_world_def demo_state_def)
  from execute_query_connection [OF c1, of "''SELECT id FROM uploaded_data LIMIT 10;''"] q1
  have r1: "execute_query (demo_world [] False) ''SELECT id FROM uploaded_data LIMIT 10;'' demo_state =
     (Inr (select_all_answer 10 demo_table),
      demo_state\<lparr>db := 1, trace := trace demo_state @
         [Connected, Executed ''SELECT id FROM uploaded_data LIMIT 10;'', Closed]\<rparr>)"
    by blast
  from execute_query_connection [OF c2, of "''SELECT nothing LIMIT 10;''"] q2
  have r2: "execute_query (demo_world [] True) ''SELECT nothing LIMIT 10;'' demo_state =
     (Inl (StoreError ''Binder Error''),
      demo_state\<lparr>db := 1, open_conns := Suc (open_conns demo_state),
        trace := trace demo_state @ [Connected, Executed ''SELECT nothing LIMIT 10;'']\<rparr>)"
    by blast
  from c1 r1 r2 show ?thesis
    by (simp add: demo_state_def)
qed

text \<open>
  The claim as the specification states it, the connection released on the error exit too,
  fails on a store that rejects the statement.
\<close>

theorem execute_query_leak_counterexample:
  "open_conns demo_state = 0 \<and>
   execute_query (demo_world ''SELECT a FROM t'' True) ''SELECT a FROM t LIMIT 10;'' demo_state =
     (Inl (StoreError ''Binder Error''),
      \<lparr>db = 1, open_conns = 1, trace = [Connected, Executed ''SELECT a FROM t LIMIT 10;'']\<rparr>)"
  by (simp add: execute_query_def effect_defs demo_world_def demo_state_def)

lemma to_dict_records_head: "to_dict_records (df_head n df) = take n (to_dict_records df)"
  by (simp add: to_dict_records_def df_head_def take_map)

text \<open>
  Claim C6. On a result with no rows the summarizer returns the fixed sentence and leaves
  the state as it was, so the model service is not called. On a result that is not empty
  the model service is called once, and the request carries the records of the first ten
  rows and no others.
\<close>

theorem generate_summary_short_circuit:
  "(rows df = [] \<longrightarrow>
      generate_summary w user_query df s = (Inr ''No records matched the query.'', s)) \<and>
   (\<not> df_empty df \<longrightarrow>
      (\<exists>rest. trace (snd (generate_summary w user_query df s)) =
                 trace s @ Model_called (summary_request user_query (take 10 (to_dict_records df))) # rest \<and>
              (\<forall>e \<in> set rest. \<forall>r. e \<noteq> Model_called r)))"
  by (auto simp: generate_summary_def df_empty_def Let_def effect_defs to_dict_records_head
      split: sum.splits)

theorem generate_summary_short_circuit_witness:
  "rows (demo_frame\<lparr>rows := []\<rparr>) = [] \<and>
   generate_summary (demo_world ''One record.'' False) ''how many'' (demo_frame\<lparr>rows := []\<rparr>) demo_state =
     (Inr ''No records matched the query.'', demo_state) \<and>
   \<not> df_empty demo_frame \<and> length (rows demo_frame) = 11 \<and>
   (\<exists>rest. trace (snd (generate_summary (demo_world ''One record.'' False) ''how many'' demo_frame demo_state)) =
      Model_called (summary_request ''how many''
        [[(PStr ''id'', PInt 1)], [(PStr ''id'', PInt 2)], [(PStr ''id'', PInt 3)],
         [(PStr ''id'', PInt 4)], [(PStr ''id'', PInt 5)], [(PStr ''id'', PInt 6)],
         [(PStr ''id'', PInt 7)], [(PStr ''id'', PInt 8)], [(PStr ''id'', PInt 9)],
         [(PStr ''id'', PInt 10)]]) # rest \<and>
      (\<forall>e \<in> set rest. \<forall>r. e \<noteq> Model_called r))"
proof -
  have e: "rows (demo_frame\<lparr>rows := []\<rparr>) = []"
    by simp
  have n: "\<not> df_empty demo_frame" and l: "length (rows demo_frame) = 11"
    by (simp_all add: df_empty_def demo_frame_def)
  have t: "take 10 (to_dict_records demo_frame) =
        [[(PStr ''id'', PInt 1)], [(PStr ''id'', PInt 2)], [(PStr ''id'', PInt 3)],
         [(PStr ''id'', PInt 4)], [(PStr ''id'', PInt 5)], [(PStr ''id'', PInt 6)],
         [(PStr ''id'', PInt 7)], [(PStr ''id'', PInt 8)], [(PStr ''id'', PInt 9)],
         [(PStr ''id'', PInt 10)]]"
    by (simp add: to_dict_records_def demo_frame_def py_dict_def)
  from generate_summary_short_circuit
    [of "demo_frame\<lparr>rows := []\<rparr>" "demo_world ''One record.'' False" "''how many''" demo_state] e
  have a: "generate_summary (demo_world ''One record.'' False) ''how many'' (demo_frame\<lparr>rows := []\<rparr>) demo_state =
     (Inr ''No records matched the query.'', demo_state)"
    by blast
  from generate_summary_short_circuit
    [of demo_frame "demo_world ''One record.'' False" "''how many''" demo_state] n
  have b: "\<exists>rest. trace (snd (generate_summary (demo_world ''One record.'' False) ''how many'' demo_frame demo_state)) =
      trace demo_state @ Model_called (summary_request ''how many'' (take 10 (to_dict_records demo_frame))) # rest \<and>
      (\<forall>e \<in> set rest. \<forall>r. e \<noteq> Model_called r)"
    by blast
  have "trace demo_state = []"
    by (simp add: demo_state_def)
  with b t e a n l show ?thesis
    by (simp only: append_Nil simp_thms)
qed

lemma py_dict_keys_aux:
  "fst ` set (fold (\<lambda>(k, v). AList.update k v) kvs al) = fst ` set kvs \<union> fst ` set al"
proof (induction kvs arbitrary: al)
  case Nil
  then show ?case by simp
next
  case (Cons kv kvs)
  obtain k v where kv: "kv = (k, v)" by (cases kv)
  have "fst ` set (fold (\<lambda>(k, v). AList.update k v) (kv # kvs) al) =
        fst ` set kvs \<union> fst ` set (AList.update k v al)"
    by (simp add: kv Cons.IH)
  also have "\<dots> = fst ` set kvs \<union> ({k} \<union> fst ` set al)"
    by (simp only: dom_update)
  also have "\<dots> = fst ` set (kv # kvs) \<union> fst ` set al"
    by (auto simp: kv)
  finally show ?case .
qed

lemma py_dict_keys: "fst ` set (py_dict kvs) = fst ` set kvs"
  by (simp add: py_dict_def py_dict_keys_aux)

lemma py_dict_zip_keys:
  assumes "length ks = length vs"
  shows "fst ` set (py_dict (zip ks vs)) = set ks"
proof -
  have "set (map fst (zip ks vs)) = set ks"
    using assms by simp
  then have "fst ` set (zip ks vs) = set ks"
    by (simp only: set_map)
  then show ?thesis
    by (simp only: py_dict_keys)
qed

lemma record_keys:
  assumes "r \<in> set (to_dict_records df)"
  shows "fst ` set r \<subseteq> set (columns df)"
proof -
  from assms obtain row where "r = py_dict (zip (columns df) row)"
    by (auto simp: to_dict_records_def)
  then show ?thesis
    by (auto simp: py_dict_keys dest: set_zip_leftD)
qed

lemma index_of_member: "x \<in> set ys \<Longrightarrow> \<exists>i. index_of x ys = Some i"
  by (induction ys) auto

text \<open>
  Claim C7. Take a table that the store holds. The store answers \<open>DESCRIBE\<close> with some
  frame that has a \<open>column_type\<close> column and whose \<open>column_name\<close> column lists the names of
  the table's columns, whatever else the frame reports, and it answers the sample
  statement with the first three rows under the column names. Then the builder returns a
  descriptor whose columns are these names, whose type mapping has exactly these names as
  keys, whose sample rows have keys among these names, and which has at most three
  sample rows.
\<close>

theorem extract_metadata_invariant:
  assumes "store_connect w (db s) = None"
    and "store_query w ''DESCRIBE uploaded_data'' (db s) = (Inr schema, d1)"
    and "column_tolist schema (PStr ''column_name'') = Inr (map (PStr \<circ> fst) (t_columns t))"
    and "PStr ''column_type'' \<in> set (columns schema)"
    and "store_query w ''SELECT * FROM uploaded_data LIMIT 3'' d1 = (Inr (select_all_answer 3 t), d2)"
  shows "\<exists>md s'. extract_metadata_from_db w TABLE_NAME s = (Inr md, s') \<and>
           m_columns md = map (PStr \<circ> fst) (t_columns t) \<and>
           fst ` set (m_dtypes md) = set (m_columns md) \<and>
           (\<forall>r \<in> set (m_sample_rows md). fst ` set r \<subseteq> set (m_columns md)) \<and>
           length (m_sample_rows md) \<le> 3"
proof -
  let ?names = "map (PStr \<circ> fst) (t_columns t)"
  have "\<exists>j. index_of (PStr ''column_type'') (columns schema) = Some j"
    using assms(4) by (rule index_of_member)
  then obtain j where j: "index_of (PStr ''column_type'') (columns schema) = Some j" ..
  from assms(3) obtain i where names: "map (\<lambda>r. cell r i) (rows schema) = ?names"
    by (auto simp: column_tolist_def split: option.splits)
  let ?types = "map (\<lambda>r. cell r j) (rows schema)"
  have types: "column_tolist schema (PStr ''column_type'') = Inr ?types"
    by (simp add: column_tolist_def j)
  let ?md = "\<lparr>m_columns = ?names, m_dtypes = py_dict (zip ?names ?types),
              m_sample_rows = to_dict_records (select_all_answer 3 t)\<rparr>"
  have run: "\<exists>s'. extract_metadata_from_db w TABLE_NAME s = (Inr ?md, s')"
    using assms(1,2,3,5) types
    by (simp add: extract_metadata_from_db_def TABLE_NAME_def effect_defs)
  have "length (map (\<lambda>r. cell r i) (rows schema)) = length ?types"
    by simp
  then have "length ?names = length ?types"
    by (simp only: names)
  then have keys: "fst ` set (m_dtypes ?md) = set (m_columns ?md)"
    by (simp add: py_dict_zip_keys)
  have rows: "\<forall>r \<in> set (m_sample_rows ?md). fst ` set r \<subseteq> set (m_columns ?md)"
    using record_keys[of _ "select_all_answer 3 t"] by (simp add: select_all_answer_def)
  have count: "length (m_sample_rows ?md) \<le> 3"
    by (simp add: to_dict_records_def select_all_answer_def)
  from run keys rows count show ?thesis
    by (metis metadata.select_convs(1))
qed

theorem extract_metadata_invariant_witness:
  "store_connect (demo_world [] False) (db demo_state) = None \<and>
   column_tolist demo_schema (PStr ''column_name'') = Inr (map (PStr \<circ> fst) (t_columns demo_table)) \<and>
   PStr ''column_type'' \<in> set (columns demo_schema) \<and>
   (\<exists>md s'. extract_metadata_from_db (demo_world [] False) TABLE_NAME demo_state = (Inr md, s') \<and>
      m_columns md = [PStr ''id'', PStr ''status''] \<and>
      fst ` set (m_dtypes md) = set (m_columns md) \<and>
      (\<forall>r \<in> set (m_sample_rows md). fst ` set r \<subseteq> set (m_columns md)) \<and>
      length (m_sample_rows md) \<le> 3)"
proof -
  have c: "store_connect (demo_world [] False) (db demo_state) = None"
    by (simp add: demo_world_def)
  have q1: "store_query (demo_world [] False) ''DESCRIBE uploaded_data'' (db demo_state) =
              (Inr demo_schema, 1)"
    by (simp add: demo_world_def demo_state_def)
  have n: "column_tolist demo_schema (PStr ''column_name'') =
             Inr (map (PStr \<circ> fst) (t_columns demo_table))"
    by (simp add: column_tolist_def demo_schema_def demo_table_def cell_def)
  have ty: "PStr ''column_type'' \<in> set (columns demo_schema)"
    by (simp add: demo_schema_def)
  have q2: "store_query (demo_world [] False) ''SELECT * FROM uploaded_data LIMIT 3'' 1 =
              (Inr (select_all_answer 3 demo_table), 2)"
    by (simp add: demo_world_def)
  have cols: "map (PStr \<circ> fst) (t_columns demo_table) = [PStr ''id'', PStr ''status'']"
    by (simp add: demo_table_def)
  from extract_metadata_invariant [OF c q1 n ty q2] c n ty show ?thesis
    by (simp only: cols simp_thms)
qed


section \<open>Properties of the interactive loop\<close>

lemma strip_sql_markdown_plain:
  assumes "\<not> sublist fence s"
  shows "strip_sql_markdown s = strip s"
proof (cases "re_search s")
  case None
  then show ?thesis by (simp add: strip_sql_markdown_def)
next
  case (Some g)
  from re_search_Some[OF this] obtain pre inner post where "s = pre @ fence @ inner @ fence @ post"
    by blast
  then have "sublist fence s" by simp
  with assms show ?thesis by simp
qed

lemma demo_select_reply:
  "strip_sql_markdown (strip ''SELECT id FROM uploaded_data'') = ''SELECT id FROM uploaded_data''"
proof -
  have a: "strip ''SELECT id FROM uploaded_data'' = ''SELECT id FROM uploaded_data''"
    by (simp add: strip_def is_space_def)
  have "\<not> sublist fence ''SELECT id FROM uploaded_data''"
    by (simp add: fence_def sublist_code)
  then have "strip_sql_markdown ''SELECT id FROM uploaded_data'' = strip ''SELECT id FROM uploaded_data''"
    by (rule strip_sql_markdown_plain)
  then show ?thesis
    by (simp only: a)
qed

lemma demo_select_safe: "is_safe_query ''SELECT id FROM uploaded_data''"
  by (simp add: is_safe_query_def forbidden_def upper_def upper_char_def sublist_code)

lemma demo_select_limit:
  "enforce_limit ''SELECT id FROM uploaded_data'' 10 = ''SELECT id FROM uploaded_data LIMIT 10;''"
  by (simp add: enforce_limit_def upper_def upper_char_def sublist_code rstrip_def str_int_def)

lemma demo_drop_reply:
  "strip_sql_markdown (strip ''DROP TABLE uploaded_data'') = ''DROP TABLE uploaded_data''"
proof -
  have a: "strip ''DROP TABLE uploaded_data'' = ''DROP TABLE uploaded_data''"
    by (simp add: strip_def is_space_def)
  have "\<not> sublist fence ''DROP TABLE uploaded_data''"
    by (simp add: fence_def sublist_code)
  then have "strip_sql_markdown ''DROP TABLE uploaded_data'' = strip ''DROP TABLE uploaded_data''"
    by (rule strip_sql_markdown_plain)
  then show ?thesis
    by (simp only: a)
qed

lemma demo_drop_unsafe: "\<not> is_safe_query ''DROP TABLE uploaded_data''"
  by (simp add: is_safe_query_def forbidden_def upper_def upper_char_def sublist_code)

lemma lower_not_exit: "lower ''show ids'' \<noteq> ''exit''" "lower ''remove it'' \<noteq> ''exit''"
  by (simp_all add: lower_def lower_char_def)

lemma loop_exit: "lower u = ''exit'' \<Longrightarrow>
  interactive_loop w md (u # inputs) s = (None, s\<lparr>trace := trace s @ [Read_input u]\<rparr>)"
  by (simp add: effect_defs)

lemma lower_exit: "lower ''Exit'' = ''exit''"
  by (simp add: lower_def lower_char_def)

text \<open>
  Claim C8. In a turn whose synthesized statement the safety gate rejects, the turn adds
  to the trace the question read, the call of the model service, the token count and two
  printed lines, the second being the notice \<open>Unsafe query blocked.\<close>; no connection is
  opened and no statement is executed, the store and the number of open connections are
  as before the turn, and the loop goes on with the remaining questions.
\<close>

theorem blocked_turn:
  assumes "lower user_input \<noteq> ''exit''"
    and "model_reply w (trace s @ [Read_input user_input])
           (select_request user_input md TABLE_NAME) = Inr reply"
    and "\<not> is_safe_query (strip_sql_markdown (strip reply))"
  shows "interactive_loop w md (user_input # inputs) s =
           interactive_loop w md inputs
             (s\<lparr>trace := trace s @
                  [Read_input user_input,
                   Model_called (select_request user_input md TABLE_NAME),
                   Tokens_counted,
                   Printed (Out_text ''[ANALYSIS LLM CALL]''),
                   Printed (Out_text ''Unsafe query blocked.'')]\<rparr>)"
  using assms by (simp add: generate_select_sql_def Let_def effect_defs)

theorem blocked_turn_witness:
  "lower ''remove it'' \<noteq> ''exit'' \<and>
   \<not> is_safe_query (strip_sql_markdown (strip ''DROP TABLE uploaded_data'')) \<and>
   interactive_loop (demo_world ''DROP TABLE uploaded_data'' False) demo_metadata
       [''remove it'', ''Exit''] demo_state =
     (None,
      \<lparr>db = 0, open_conns = 0,
       trace = [Read_input ''remove it'',
                Model_called (select_request ''remove it'' demo_metadata TABLE_NAME),
                Tokens_counted,
                Printed (Out_text ''[ANALYSIS LLM CALL]''),
                Printed (Out_text ''Unsafe query blocked.''),
                Read_input ''Exit'']\<rparr>)"
proof -
  let ?w = "demo_world ''DROP TABLE uploaded_data'' False"
  have h1: "lower ''remove it'' \<noteq> ''exit''"
    by (rule lower_not_exit)
  have h2: "model_reply ?w (trace demo_state @ [Read_input ''remove it''])
              (select_request ''remove it'' demo_metadata TABLE_NAME) = Inr ''DROP TABLE uploaded_data''"
    by (simp add: demo_world_def)
  have h3: "\<not> is_safe_query (strip_sql_markdown (strip ''DROP TABLE uploaded_data''))"
    by (simp only: demo_drop_reply demo_drop_unsafe not_False_eq_True)
  note step = blocked_turn [OF h1 h2 h3, of "[''Exit'']"]
  note fin = loop_exit [OF lower_exit, of ?w demo_metadata "[]"]
  have "interactive_loop ?w demo_metadata [''remove it'', ''Exit''] demo_state =
          interactive_loop ?w demo_metadata [''Exit'']
            (demo_state\<lparr>trace := trace demo_state @
                  [Read_input ''remove it'',
                   Model_called (select_request ''remove it'' demo_metadata TABLE_NAME),
                   Tokens_counted,
                   Printed (Out_text ''[ANALYSIS LLM CALL]''),
                   Printed (Out_text ''Unsafe query blocked.'')]\<rparr>)"
    by (rule step)
  also have "\<dots> = (None,
      \<lparr>db = 0, open_conns = 0,
       trace = [Read_input ''remove it'',
                Model_called (select_request ''remove it'' demo_metadata TABLE_NAME),
                Tokens_counted,
                Printed (Out_text ''[ANALYSIS LLM CALL]''),
                Printed (Out_text ''Unsafe query blocked.''),
                Read_input ''Exit'']\<rparr>)"
    by (simp add: fin demo_state_def del: interactive_loop.simps)
  finally show ?thesis
    using h1 h3 by (simp only: simp_thms)
qed

text \<open>
  Claim C3, as the code has it. The loop body has no exception handler, so no failure of
  a turn is caught. Whichever call of the turn raises, the model service asked for the
  statement, the opening of the connection, the store executing the validated statement,
  or the model service asked for the summary, the exception ends the loop and with it the
  program: the result is that exception whatever questions remain, the trace ends with
  the call that raised, and nothing is printed about the error. When the store raises,
  the connection of the turn stays open. A turn in which every call returns goes on with
  the remaining questions.
\<close>

theorem turn_failure_fatal:
  assumes "lower u \<noteq> ''exit''"
  shows
   "(\<forall>e. model_reply w (trace s @ [Read_input u]) (select_request u md TABLE_NAME) = Inl e \<longrightarrow>
        interactive_loop w md (u # inputs) s =
          (Some e, s\<lparr>trace := trace s @
                    [Read_input u,
                     Model_called (select_request u md TABLE_NAME)]\<rparr>)) \<and>
    (\<forall>reply. model_reply w (trace s @ [Read_input u]) (select_request u md TABLE_NAME) = Inr reply \<and>
        is_safe_query (strip_sql_markdown (strip reply)) \<longrightarrow>
      (\<forall>e. store_connect w (db s) = Some e \<longrightarrow>
         interactive_loop w md (u # inputs) s =
           (Some e, s\<lparr>trace := trace s @
                    [Read_input u,
                     Model_called (select_request u md TABLE_NAME),
                     Tokens_counted,
                     Printed (Out_text ''[ANALYSIS LLM CALL]''),
                     Printed (Out_text (''\<newline>Generated SQL:\<newline> '' @ enforce_limit (strip_sql_markdown (strip reply)) 10))]\<rparr>)) \<and>
      (store_connect w (db s) = None \<longrightarrow>
        (\<forall>e d. store_query w (enforce_limit (strip_sql_markdown (strip reply)) 10) (db s) = (Inl e, d) \<longrightarrow>
           interactive_loop w md (u # inputs) s =
             (Some e, s\<lparr>db := d, open_conns := Suc (open_conns s),
                        trace := trace s @
                          [Read_input u,
                           Model_called (select_request u md TABLE_NAME),
                           Tokens_counted,
                           Printed (Out_text ''[ANALYSIS LLM CALL]''),
                           Printed (Out_text (''\<newline>Generated SQL:\<newline> '' @ enforce_limit (strip_sql_markdown (strip reply)) 10)),
                           Connected,
                           Executed (enforce_limit (strip_sql_markdown (strip reply)) 10)]\<rparr>)) \<and>
        (\<forall>df d. store_query w (enforce_limit (strip_sql_markdown (strip reply)) 10) (db s) = (Inr df, d) \<longrightarrow>
          (\<forall>e. \<not> df_empty df \<and>
               model_reply w (trace s @
                      [Read_input u,
                       Model_called (select_request u md TABLE_NAME),
                       Tokens_counted,
                       Printed (Out_text ''[ANALYSIS LLM CALL]''),
                       Printed (Out_text (''\<newline>Generated SQL:\<newline> '' @ enforce_limit (strip_sql_markdown (strip reply)) 10)),
                       Connected,
                       Executed (enforce_limit (strip_sql_markdown (strip reply)) 10),
                       Closed,
                       Printed (Out_text ''\<newline>--- Result (First 10 Rows) ---\<newline>''),
                       Printed (Out_frame (df_head 10 df))])
                 (summary_request u (take 10 (to_dict_records df))) = Inl e \<longrightarrow>
             interactive_loop w md (u # inputs) s =
               (Some e, s\<lparr>db := d, trace := trace s @
                      [Read_input u,
                       Model_called (select_request u md TABLE_NAME),
                       Tokens_counted,
                       Printed (Out_text ''[ANALYSIS LLM CALL]''),
                       Printed (Out_text (''\<newline>Generated SQL:\<newline> '' @ enforce_limit (strip_sql_markdown (strip reply)) 10)),
                       Connected,
                       Executed (enforce_limit (strip_sql_markdown (strip reply)) 10),
                       Closed,
                       Printed (Out_text ''\<newline>--- Result (First 10 Rows) ---\<newline>''),
                       Printed (Out_frame (df_head 10 df)),
                       Model_called (summary_request u (take 10 (to_dict_records df)))]\<rparr>)) \<and>
          (\<forall>answer. \<not> df_empty df \<and>
               model_reply w (trace s @
                      [Read_input u,
                       Model_called (select_request u md TABLE_NAME),
                       Tokens_counted,
                       Printed (Out_text ''[ANALYSIS LLM CALL]''),
                       Printed (Out_text (''\<newline>Generated SQL:\<newline> '' @ enforce_limit (strip_sql_markdown (strip reply)) 10)),
                       Connected,
                       Executed (enforce_limit (strip_sql_markdown (strip reply)) 10),
                       Closed,
                       Printed (Out_text ''\<newline>--- Result (First 10 Rows) ---\<newline>''),
                       Printed (Out_frame (df_head 10 df))])
                 (summary_request u (take 10 (to_dict_records df))) = Inr answer \<longrightarrow>
             interactive_loop w md (u # inputs) s =
               interactive_loop w md inputs
                 (s\<lparr>db := d, trace := trace s @
                      [Read_input u,
                       Model_called (select_request u md TABLE_NAME),
                       Tokens_counted,
                       Printed (Out_text ''[ANALYSIS LLM CALL]''),
                       Printed (Out_text (''\<newline>Generated SQL:\<newline> '' @ enforce_limit (strip_sql_markdown (strip reply)) 10)),
                       Connected,
                       Executed (enforce_limit (strip_sql_markdown (strip reply)) 10),
                       Closed,
                       Printed (Out_text ''\<newline>--- Result (First 10 Rows) ---\<newline>''),
                       Printed (Out_frame (df_head 10 df)),
                       Model_called (summary_request u (take 10 (to_dict_records df))),
                       Printed (Out_text ''[SUMMARY LLM CALL]''),
                       Tokens_counted,
                       Printed (Out_text ''\<newline>--- Summary ---\<newline>''),
                       Printed (Out_text (strip answer))]\<rparr>)) \<and>
          (df_empty df \<longrightarrow>
             interactive_loop w md (u # inputs) s =
               interactive_loop w md inputs
                 (s\<lparr>db := d, trace := trace s @
                      [Read_input u,
                       Model_called (select_request u md TABLE_NAME),
                       Tokens_counted,
                       Printed (Out_text ''[ANALYSIS LLM CALL]''),
                       Printed (Out_text (''\<newline>Generated SQL:\<newline> '' @ enforce_limit (strip_sql_markdown (strip reply)) 10)),
                       Connected,
                       Executed (enforce_limit (strip_sql_markdown (strip reply)) 10),
                       Closed,
                       Printed (Out_text ''\<newline>--- Result (First 10 Rows) ---\<newline>''),
                       Printed (Out_frame (df_head 10 df)),
                       Printed (Out_text ''\<newline>--- Summary ---\<newline>''),
                       Printed (Out_text ''No records matched the query.'')]\<rparr>)))))"
  using assms
  by (auto simp: generate_select_sql_def execute_query_def generate_summary_def Let_def
      effect_defs to_dict_records_head)

theorem turn_failure_fatal_witness:
  "lower ''show ids'' \<noteq> ''exit'' \<and>
   interactive_loop (scripted_world (Inl (ModelError ''timeout'')) (Inr ''ok'') None (Inr demo_frame))
       demo_metadata [''show ids'', ''Exit''] demo_state =
      (Some (ModelError ''timeout''),
       \<lparr>db = 0, open_conns = 0,
        trace = [Read_input ''show ids'',
                 Model_called (select_request ''show ids'' demo_metadata TABLE_NAME)]\<rparr>) \<and>
   interactive_loop (scripted_world (Inr ''SELECT id FROM uploaded_data'') (Inr ''ok'') (Some (StoreError ''IO Error'')) (Inr demo_frame))
       demo_metadata [''show ids'', ''Exit''] demo_state =
      (Some (StoreError ''IO Error''),
       \<lparr>db = 0, open_conns = 0,
        trace = [Read_input ''show ids'',
                 Model_called (select_request ''show ids'' demo_metadata TABLE_NAME),
                 Tokens_counted,
                 Printed (Out_text ''[ANALYSIS LLM CALL]''),
                 Printed (Out_text ''\<newline>Generated SQL:\<newline> SELECT id FROM uploaded_data LIMIT 10;'')]\<rparr>) \<and>
   interactive_loop (scripted_world (Inr ''SELECT id FROM uploaded_data'') (Inr ''ok'') None (Inl (StoreError ''Binder Error'')))
       demo_metadata [''show ids'', ''Exit''] demo_state =
      (Some (StoreError ''Binder Error''),
       \<lparr>db = 1, open_conns = 1,
        trace = [Read_input ''show ids'',
                 Model_called (select_request ''show ids'' demo_metadata TABLE_NAME),
                 Tokens_counted,
                 Printed (Out_text ''[ANALYSIS LLM CALL]''),
                 Printed (Out_text ''\<newline>Generated SQL:\<newline> SELECT id FROM uploaded_data LIMIT 10;''),
                 Connected,
                 Executed ''SELECT id FROM uploaded_data LIMIT 10;'']\<rparr>) \<and>
   interactive_loop (scripted_world (Inr ''SELECT id FROM uploaded_data'') (Inl (ModelError ''timeout'')) None (Inr demo_frame))
       demo_metadata [''show ids'', ''Exit''] demo_state =
      (Some (ModelError ''timeout''),
       \<lparr>db = 1, open_conns = 0,
        trace = [Read_input ''show ids'',
                 Model_called (select_request ''show ids'' demo_metadata TABLE_NAME),
                 Tokens_counted,
                 Printed (Out_text ''[ANALYSIS LLM CALL]''),
                 Printed (Out_text ''\<newline>Generated SQL:\<newline> SELECT id FROM uploaded_data LIMIT 10;''),
                 Connected,
                 Executed ''SELECT id FROM uploaded_data LIMIT 10;'',
                 Closed,
                 Printed (Out_text ''\<newline>--- Result (First 10 Rows) ---\<newline>''),
                 Printed (Out_frame (df_head 10 demo_frame)),
                 Model_called (summary_request ''show ids'' (take 10 (to_dict_records demo_frame)))]\<rparr>) \<and>
   interactive_loop (scripted_world (Inr ''SELECT id FROM uploaded_data'') (Inr '' Eleven rows. '') None (Inr demo_frame))
       demo_metadata [''show ids'', ''Exit''] demo_state =
      (None,
       \<lparr>db = 1, open_conns = 0,
        trace = [Read_input ''show ids'',
                 Model_called (select_request ''show ids'' demo_metadata TABLE_NAME),
                 Tokens_counted,
                 Printed (Out_text ''[ANALYSIS LLM CALL]''),
                 Printed (Out_text ''\<newline>Generated SQL:\<newline> SELECT id FROM uploaded_data LIMIT 10;''),
                 Connected,
                 Executed ''SELECT id FROM uploaded_data LIMIT 10;'',
                 Closed,
                 Printed (Out_text ''\<newline>--- Result (First 10 Rows) ---\<newline>''),
                 Printed (Out_frame (df_head 10 demo_frame)),
                 Model_called (summary_request ''show ids'' (take 10 (to_dict_records demo_frame))),
                 Printed (Out_text ''[SUMMARY LLM CALL]''),
                 Tokens_counted,
                 Printed (Out_text ''\<newline>--- Summary ---\<newline>''),
                 Printed (Out_text ''Eleven rows.''),
                 Read_input ''Exit'']\<rparr>) \<and>
   interactive_loop (scripted_world (Inr ''SELECT id FROM uploaded_data'') (Inr ''ok'') None (Inr (demo_frame\<lparr>rows := []\<rparr>)))
       demo_metadata [''show ids'', ''Exit''] demo_state =
      (None,
       \<lparr>db = 1, open_conns = 0,
        trace = [Read_input ''show ids'',
                 Model_called (select_request ''show ids'' demo_metadata TABLE_NAME),
                 Tokens_counted,
                 Printed (Out_text ''[ANALYSIS LLM CALL]''),
                 Printed (Out_text ''\<newline>Generated SQL:\<newline> SELECT id FROM uploaded_data LIMIT 10;''),
                 Connected,
                 Executed ''SELECT id FROM uploaded_data LIMIT 10;'',
                 Closed,
                 Printed (Out_text ''\<newline>--- Result (First 10 Rows) ---\<newline>''),
                 Printed (Out_frame (df_head 10 (demo_frame\<lparr>rows := []\<rparr>))),
                 Printed (Out_text ''\<newline>--- Summary ---\<newline>''),
                 Printed (Out_text ''No records matched the query.''),
                 Read_input ''Exit'']\<rparr>)"
proof -
  note h = lower_not_exit(1)
  have strip_answer: "strip '' Eleven rows. '' = ''Eleven rows.''"
    by (simp add: strip_def is_space_def)
  have r1: "interactive_loop (scripted_world (Inl (ModelError ''timeout'')) (Inr ''ok'') None (Inr demo_frame))
       demo_metadata [''show ids'', ''Exit''] demo_state =
      (Some (ModelError ''timeout''),
       \<lparr>db = 0, open_conns = 0,
        trace = [Read_input ''show ids'',
                 Model_called (select_request ''show ids'' demo_metadata TABLE_NAME)]\<rparr>)"
    using turn_failure_fatal [OF h, where w = "scripted_world (Inl (ModelError ''timeout'')) (Inr ''ok'') None (Inr demo_frame)"
        and md = demo_metadata and s = demo_state and inputs = "[''Exit'']"]
    by (simp add: scripted_world_def demo_state_def demo_select_reply demo_select_safe demo_select_limit
        df_empty_def demo_frame_def strip_answer loop_exit lower_exit
        del: interactive_loop.simps)
  have r2: "interactive_loop (scripted_world (Inr ''SELECT id FROM uploaded_data'') (Inr ''ok'') (Some (StoreError ''IO Error'')) (Inr demo_frame))
       demo_metadata [''show ids'', ''Exit''] demo_state =
      (Some (StoreError ''IO Error''),
       \<lparr>db = 0, open_conns = 0,
        trace = [Read_input ''show ids'',
                 Model_called (select_request ''show ids'' demo_metadata TABLE_NAME),
                 Tokens_counted,
                 Printed (Out_text ''[ANALYSIS LLM CALL]''),
                 Printed (Out_text ''\<newline>Generated SQL:\<newline> SELECT id FROM uploaded_data LIMIT 10;'')]\<rparr>)"
    using turn_failure_fatal [OF h, where w = "scripted_world (Inr ''SELECT id FROM uploaded_data'') (Inr ''ok'') (Some (StoreError ''IO Error'')) (Inr demo_frame)"
        and md = demo_metadata and s = demo_state and inputs = "[''Exit'']"]
    by (simp add: scripted_world_def demo_state_def demo_select_reply demo_select_safe demo_select_limit
        df_empty_def demo_frame_def strip_answer loop_exit lower_exit
        del: interactive_loop.simps)
  have r3: "interactive_loop (scripted_world (Inr ''SELECT id FROM uploaded_data'') (Inr ''ok'') None (Inl (StoreError ''Binder Error'')))
       demo_metadata [''show ids'', ''Exit''] demo_state =
      (Some (StoreError ''Binder Error''),
       \<lparr>db = 1, open_conns = 1,
        trace = [Read_input ''show ids'',
                 Model_called (select_request ''show ids'' demo_metadata TABLE_NAME),
                 Tokens_counted,
                 Printed (Out_text ''[ANALYSIS LLM CALL]''),
                 Printed (Out_text ''\<newline>Generated SQL:\<newline> SELECT id FROM uploaded_data LIMIT 10;''),
                 Connected,
                 Executed ''SELECT id FROM uploaded_data LIMIT 10;'']\<rparr>)"
    using turn_failure_fatal [OF h, where w = "scripted_world (Inr ''SELECT id FROM uploaded_data'') (Inr ''ok'') None (Inl (StoreError ''Binder Error''))"
        and md = demo_metadata and s = demo_state and inputs = "[''Exit'']"]
    by (simp add: scripted_world_def demo_state_def demo_select_reply demo_select_safe demo_select_limit
        df_empty_def demo_frame_def strip_answer loop_exit lower_exit
        del: interactive_loop.simps)
  have r4: "interactive_loop (scripted_world (Inr ''SELECT id FROM uploaded_data'') (Inl (ModelError ''timeout'')) None (Inr demo_frame))
       demo_metadata [''show ids'', ''Exit''] demo_state =
      (Some (ModelError ''timeout''),
       \<lparr>db = 1, open_conns = 0,
        trace = [Read_input ''show ids'',
                 Model_called (select_request ''show ids'' demo_metadata TABLE_NAME),
                 Tokens_counted,
                 Printed (Out_text ''[ANALYSIS LLM CALL]''),
                 Printed (Out_text ''\<newline>Generated SQL:\<newline> SELECT id FROM uploaded_data LIMIT 10;''),
                 Connected,
                 Executed ''SELECT id FROM uploaded_data LIMIT 10;'',
                 Closed,
                 Printed (Out_text ''\<newline>--- Result (First 10 Rows) ---\<newline>''),
                 Printed (Out_frame (df_head 10 demo_frame)),
                 Model_called (summary_request ''show ids'' (take 10 (to_dict_records demo_frame)))]\<rparr>)"
    using turn_failure_fatal [OF h, where w = "scripted_world (Inr ''SELECT id FROM uploaded_data'') (Inl (ModelError ''timeout'')) None (Inr demo_frame)"
        and md = demo_metadata and s = demo_state and inputs = "[''Exit'']"]
    by (simp add: scripted_world_def demo_state_def demo_select_reply demo_select_safe demo_select_limit
        df_empty_def demo_frame_def strip_answer loop_exit lower_exit
        del: interactive_loop.simps)
  have r5: "interactive_loop (scripted_world (Inr ''SELECT id FROM uploaded_data'') (Inr '' Eleven rows. '') None (Inr demo_frame))
       demo_metadata [''show ids'', ''Exit''] demo_state =
      (None,
       \<lparr>db = 1, open_conns = 0,
        trace = [Read_input ''show ids'',
                 Model_called (select_request ''show ids'' demo_metadata TABLE_NAME),
                 Tokens_counted,
                 Printed (Out_text ''[ANALYSIS LLM CALL]''),
                 Printed (Out_text ''\<newline>Generated SQL:\<newline> SELECT id FROM uploaded_data LIMIT 10;''),
                 Connected,
                 Executed ''SELECT id FROM uploaded_data LIMIT 10;'',
                 Closed,
                 Printed (Out_text ''\<newline>--- Result (First 10 Rows) ---\<newline>''),
                 Printed (Out_frame (df_head 10 demo_frame)),
                 Model_called (summary_request ''show ids'' (take 10 (to_dict_records demo_frame))),
                 Printed (Out_text ''[SUMMARY LLM CALL]''),
                 Tokens_counted,
                 Printed (Out_text ''\<newline>--- Summary ---\<newline>''),
                 Printed (Out_text ''Eleven rows.''),
                 Read_input ''Exit'']\<rparr>)"
    using turn_failure_fatal [OF h, where w = "scripted_world (Inr ''SELECT id FROM uploaded_data'') (Inr '' Eleven rows. '') None (Inr demo_frame)"
        and md = demo_metadata and s = demo_state and inputs = "[''Exit'']"]
    by (simp add: scripted_world_def demo_state_def demo_select_reply demo_select_safe demo_select_limit
        df_empty_def demo_frame_def strip_answer loop_exit lower_exit
        del: interactive_loop.simps)
  have r6: "interactive_loop (scripted_world (Inr ''SELECT id FROM uploaded_data'') (Inr ''ok'') None (Inr (demo_frame\<lparr>rows := []\<rparr>)))
       demo_metadata [''show ids'', ''Exit''] demo_state =
      (None,
       \<lparr>db = 1, open_conns = 0,
        trace = [Read_input ''show ids'',
                 Model_called (select_request ''show ids'' demo_metadata TABLE_NAME),
                 Tokens_counted,
                 Printed (Out_text ''[ANALYSIS LLM CALL]''),
                 Printed (Out_text ''\<newline>Generated SQL:\<newline> SELECT id FROM uploaded_data LIMIT 10;''),
                 Connected,
                 Executed ''SELECT id FROM uploaded_data LIMIT 10;'',
                 Closed,
                 Printed (Out_text ''\<newline>--- Result (First 10 Rows) ---\<newline>''),
                 Printed (Out_frame (df_head 10 (demo_frame\<lparr>rows := []\<rparr>))),
                 Printed (Out_text ''\<newline>--- Summary ---\<newline>''),
                 Printed (Out_text ''No records matched the query.''),
                 Read_input ''Exit'']\<rparr>)"
    using turn_failure_fatal [OF h, where w = "scripted_world (Inr ''SELECT id FROM uploaded_data'') (Inr ''ok'') None (Inr (demo_frame\<lparr>rows := []\<rparr>))"
        and md = demo_metadata and s = demo_state and inputs = "[''Exit'']"]
    by (simp add: scripted_world_def demo_state_def demo_select_reply demo_select_safe demo_select_limit
        df_empty_def demo_frame_def strip_answer loop_exit lower_exit
        del: interactive_loop.simps)
  from h r1 r2 r3 r4 r5 r6 show ?thesis
    by (simp only: simp_thms)
qed

text \<open>
  The claim as the specification states it fails. The store rejects the statement of the
  first question, or the model service fails on the first question or on its summary, or
  the connection cannot be opened; each time the exception leaves the loop and the second
  question is never read.
\<close>

theorem turn_failure_counterexample:
  "fst (interactive_loop (scripted_world (Inr ''SELECT id FROM uploaded_data'') (Inr ''ok'') None (Inl (StoreError ''Binder Error'')))
          demo_metadata [''show ids'', ''show all'', ''exit''] demo_state) =
     Some (StoreError ''Binder Error'') \<and>
   Read_input ''show all'' \<notin>
     set (trace (snd (interactive_loop (scripted_world (Inr ''SELECT id FROM uploaded_data'') (Inr ''ok'') None (Inl (StoreError ''Binder Error'')))
          demo_metadata [''show ids'', ''show all'', ''exit''] demo_state))) \<and>
   fst (interactive_loop (scripted_world (Inl (ModelError ''timeout'')) (Inr ''ok'') None (Inr demo_frame))
          demo_metadata [''show ids'', ''show all'', ''exit''] demo_state) =
     Some (ModelError ''timeout'') \<and>
   Read_input ''show all'' \<notin>
     set (trace (snd (interactive_loop (scripted_world (Inl (ModelError ''timeout'')) (Inr ''ok'') None (Inr demo_frame))
          demo_metadata [''show ids'', ''show all'', ''exit''] demo_state))) \<and>
   fst (interactive_loop (scripted_world (Inr ''SELECT id FROM uploaded_data'') (Inl (ModelError ''timeout'')) None (Inr demo_frame))
          demo_metadata [''show ids'', ''show all'', ''exit''] demo_state) =
     Some (ModelError ''timeout'') \<and>
   Read_input ''show all'' \<notin>
     set (trace (snd (interactive_loop (scripted_world (Inr ''SELECT id FROM uploaded_data'') (Inl (ModelError ''timeout'')) None (Inr demo_frame))
          demo_metadata [''show ids'', ''show all'', ''exit''] demo_state))) \<and>
   fst (interactive_loop (scripted_world (Inr ''SELECT id FROM uploaded_data'') (Inr ''ok'') (Some (StoreError ''IO Error'')) (Inr demo_frame))
          demo_metadata [''show ids'', ''show all'', ''exit''] demo_state) =
     Some (StoreError ''IO Error'') \<and>
   Read_input ''show all'' \<notin>
     set (trace (snd (interactive_loop (scripted_world (Inr ''SELECT id FROM uploaded_data'') (Inr ''ok'') (Some (StoreError ''IO Error'')) (Inr demo_frame))
          demo_metadata [''show ids'', ''show all'', ''exit''] demo_state)))"
  by (simp add: generate_select_sql_def execute_query_def generate_summary_def Let_def effect_defs
      scripted_world_def demo_state_def demo_select_reply demo_select_safe demo_select_limit
      lower_not_exit df_empty_def demo_frame_def)

end
